theory Spec2Isabelle
  imports Main "HOL-Library.Word"
begin

section \<open>Values of a request\<close>

text \<open>
  The server of \<^verbatim>\<open>server.js\<close> is an Express application: every route is one handler
  that reads the request, makes calls to a client library (the Mongoose model
  \<^verbatim>\<open>User\<close>, the S3 client \<^verbatim>\<open>s3\<close>, the logger) and answers with a status and a body.

  The body of a request is what \<^verbatim>\<open>express.json()\<close> leaves in \<^verbatim>\<open>req.body\<close>: a JSON value.
  A number is kept as the text JavaScript prints it with (\<^verbatim>\<open>String(n)\<close>, so zero is
  \<^verbatim>\<open>0\<close>): the program reads a number only through its truthiness and through that text.
  An object is the list of its members, each name once as in a parsed object, and is read
  through \<open>map_of\<close>.
\<close>

datatype json =
    JNull
  | JBool bool
  | JNum string
  | JStr string
  | JArr "json list"
  | JObj "(string \<times> json) list"

text \<open>
  \<^verbatim>\<open>const { name, email } = req.body\<close> reads two properties; a property that is not there
  is \<^verbatim>\<open>undefined\<close>, here \<open>None\<close>. Only an object has members of its own.
\<close>

fun members :: "json \<Rightarrow> (string \<times> json) list" where
  "members (JObj kvs) = kvs"
| "members _ = []"

definition property :: "json \<Rightarrow> string \<Rightarrow> json option" where
  "property b k = map_of (members b) k"

text \<open>
  JavaScript's truthiness, which \<^verbatim>\<open>!name\<close> negates: \<^verbatim>\<open>undefined\<close>, \<^verbatim>\<open>null\<close>, \<^verbatim>\<open>false\<close>,
  \<^verbatim>\<open>0\<close> and the empty string are falsy, everything else is truthy.
\<close>

fun truthy :: "json option \<Rightarrow> bool" where
  "truthy None = False"
| "truthy (Some JNull) = False"
| "truthy (Some (JBool b)) = b"
| "truthy (Some (JNum n)) = (n \<noteq> ''0'')"
| "truthy (Some (JStr s)) = (s \<noteq> [])"
| "truthy (Some (JArr _)) = True"
| "truthy (Some (JObj _)) = True"

section \<open>Object identifiers\<close>

text \<open>
  The identifier of a document is a BSON ObjectId: twelve bytes. A client sees it as the
  24 hexadecimal digits \<^verbatim>\<open>toHexString\<close> gives, and sends it back in the path as
  \<^verbatim>\<open>req.params.id\<close>, where the driver casts the string to an ObjectId again. The cast
  modelled here accepts the strings of 24 hexadecimal digits, in either case.
\<close>

type_synonym oid = "96 word"

definition hex_digit :: "nat \<Rightarrow> char" where
  "hex_digit d = ''0123456789abcdef'' ! d"

definition hex_value :: "char \<Rightarrow> nat option" where
  "hex_value c =
     map_of (zip ''0123456789abcdefABCDEF''
       [0, 1, 2, 3, 4, 5, 6, 7, 8, 9, 10, 11, 12, 13, 14, 15, 10, 11, 12, 13, 14, 15]) c"

fun hex_of_nat :: "nat \<Rightarrow> nat \<Rightarrow> string" where
  "hex_of_nat 0 n = []"
| "hex_of_nat (Suc k) n = hex_of_nat k (n div 16) @ [hex_digit (n mod 16)]"

fun nat_of_hex :: "nat \<Rightarrow> string \<Rightarrow> nat option" where
  "nat_of_hex acc [] = Some acc"
| "nat_of_hex acc (c # cs) =
     (case hex_value c of
        None \<Rightarrow> None
      | Some d \<Rightarrow> nat_of_hex (16 * acc + d) cs)"

definition toHexString :: "oid \<Rightarrow> string" where
  "toHexString i = hex_of_nat 24 (unat i)"

definition castObjectId :: "string \<Rightarrow> oid option" where
  "castObjectId s =
     (if length s = 24 then map_option word_of_nat (nat_of_hex 0 s) else None)"

section \<open>Errors\<close>

text \<open>
  What a client library throws (or rejects its promise with): the errors the libraries
  raise for a cause the model knows (a value that does not cast, a document that does not
  validate, an identifier that is taken, a connection that is closed, a file in a field
  the multipart middleware does not expect, a bucket that does not exist), and the errors
  of the store and of the storage service whose cause is outside (\<open>MongoError\<close>,
  \<open>S3Error\<close>, each with its message). \<open>message\<close> is the \<^verbatim>\<open>error.message\<close> some handlers send
  back; for the errors of the first kind its text stands for the library's own.
\<close>

datatype exn =
    CastError string
  | ValidationError string
  | DuplicateKey
  | NotConnected
  | MulterError string
  | NoSuchBucket string
  | MongoError string
  | S3Error string

fun message :: "exn \<Rightarrow> string" where
  "message (CastError p) = ''Cast failed for path '' @ p"
| "message (ValidationError p) = ''Validation failed: '' @ p"
| "message DuplicateKey = ''E11000 duplicate key error''"
| "message NotConnected = ''Operation buffering timed out''"
| "message (MulterError f) = ''Unexpected field''"
| "message (NoSuchBucket b) = ''The specified bucket does not exist''"
| "message (MongoError m) = m"
| "message (S3Error m) = m"

section \<open>The schema of a user\<close>

text \<open>
  \<^verbatim>\<open>new mongoose.Schema({ name: String, email: String })\<close>: a document has an identifier
  and two optional strings (\<open>None\<close> is a path that is null or not set). The version key the
  driver keeps for its own bookkeeping is not part of the model.
\<close>

record user =
  ident :: oid
  name :: "string option"
  email :: "string option"

text \<open>
  The cast of a value to a \<^verbatim>\<open>String\<close> path: null stays null, a string is itself, a number
  or a boolean is its text, and an object that has a non-empty string as \<^verbatim>\<open>_id\<close> is that
  string; an array or any other object is a cast error on that path.
\<close>

fun castString :: "string \<Rightarrow> json \<Rightarrow> exn + string option" where
  "castString p JNull = Inr None"
| "castString p (JStr s) = Inr (Some s)"
| "castString p (JNum n) = Inr (Some n)"
| "castString p (JBool b) = Inr (Some (if b then ''true'' else ''false''))"
| "castString p (JArr _) = Inl (CastError p)"
| "castString p (JObj kvs) =
     (case map_of kvs ''_id'' of
        Some (JStr s) \<Rightarrow> (if s = [] then Inl (CastError p) else Inr (Some s))
      | _ \<Rightarrow> Inl (CastError p))"


section \<open>The world outside the process\<close>

text \<open>
  A handler changes nothing in the process itself: what it does is the calls it makes.
  The world is the collection behind the model \<^verbatim>\<open>User\<close> (the documents in insertion
  order), the state of the shared Mongoose connection, the buckets of the storage service,
  and the history of the calls made so far, latest last. Every call to a client library
  and to the logger is written to the history, so that a handler that leaves the world as
  it found it has made no call. The connection is the one \<^verbatim>\<open>mongoose.connect\<close> opens when
  the server starts; every call to the store goes through it.
\<close>

record s3object =
  Key :: string
  Body :: string
  ContentType :: string

text \<open>
  The text of a log entry as the code builds it: a literal, or a literal with an error
  appended by \<^verbatim>\<open>+\<close> (the error as JavaScript converts it to a string).
\<close>

datatype log_text =
    Literal string
  | Concat string exn

datatype call =
    Connect
  | Close
  | FindOne
  | Save
  | Find
  | FindById string
  | FindByIdAndUpdate string json
  | DeleteOne string
  | ListBuckets
  | ListObjectsV2 string
  | Upload string string
  | DeleteObject string string
  | LogInfo string
  | LogError log_text exn

record world =
  usuarios :: "user list"
  connected :: bool
  buckets :: "(string \<times> s3object list) list"
  calls :: "call list"

definition issue :: "call \<Rightarrow> world \<Rightarrow> world" where
  "issue c w = w\<lparr>calls := calls w @ [c]\<rparr>"

text \<open>
  An update as Mongoose sends it to the store after casting: for each of the two paths,
  whether it is set, and to what (\<open>Some None\<close> sets a path to null).
\<close>

record update =
  set_name :: "string option option"
  set_email :: "string option option"

text \<open>
  What the outside decides during one request: the identifier \<^verbatim>\<open>new User\<close> generates;
  whether the call to the store, to \<^verbatim>\<open>mongoose.connect\<close> or to the storage service fails
  for a reason of its own (the network, the server, credentials), and with what error;
  and what the driver and the server make of an update that is not made of plain fields
  (see \<open>plain_fields\<close> below), given the document it applies to, if any.
\<close>

record env =
  new_ObjectId :: oid
  mongo_throws :: "exn option"
  connect_throws :: "exn option"
  s3_throws :: "exn option"
  driver_update :: "json \<Rightarrow> user option \<Rightarrow> exn + update"

section \<open>The Mongoose model\<close>

text \<open>
  The calls of the handlers to Mongoose, as far as the handlers observe them: each returns
  a value or throws, and may change the collection. A call to the store throws when the
  shared connection is closed (nothing in the server opens it again for the call), and
  otherwise when the outside makes it fail.
\<close>

definition store_throws :: "env \<Rightarrow> world \<Rightarrow> exn option" where
  "store_throws en w = (if connected w then mongo_throws en else Some NotConnected)"

definition mongoose_connect :: "env \<Rightarrow> world \<Rightarrow> (exn + unit) \<times> world" where
  "mongoose_connect en w =
     (case connect_throws en of
        Some x \<Rightarrow> (Inl x, issue Connect w)
      | None \<Rightarrow> (Inr (), issue Connect (w\<lparr>connected := True\<rparr>)))"

definition connection_close :: "world \<Rightarrow> world" where
  "connection_close w = issue Close (w\<lparr>connected := False\<rparr>)"

definition by_id :: "oid \<Rightarrow> user \<Rightarrow> bool" where
  "by_id i u = (ident u = i)"

definition other_id :: "oid \<Rightarrow> user \<Rightarrow> bool" where
  "other_id i u = (ident u \<noteq> i)"

definition User_findOne :: "env \<Rightarrow> world \<Rightarrow> (exn + user option) \<times> world" where
  "User_findOne en w =
     (let w1 = issue FindOne w in
      case store_throws en w of
        Some x \<Rightarrow> (Inl x, w1)
      | None \<Rightarrow> (Inr (case usuarios w of [] \<Rightarrow> None | u # _ \<Rightarrow> Some u), w1))"

definition User_find :: "env \<Rightarrow> world \<Rightarrow> (exn + user list) \<times> world" where
  "User_find en w =
     (let w1 = issue Find w in
      case store_throws en w of
        Some x \<Rightarrow> (Inl x, w1)
      | None \<Rightarrow> (Inr (usuarios w), w1))"

text \<open>
  \<^verbatim>\<open>new User({ name, email })\<close> generates the identifier and casts the two values to the
  schema. A value that does not cast leaves its path unset and the error in the document,
  which \<^verbatim>\<open>save\<close> throws when it validates.
\<close>

record document =
  doc :: user
  invalid :: "exn option"

definition castPath :: "string \<Rightarrow> json option \<Rightarrow> exn + string option" where
  "castPath p v = (case v of None \<Rightarrow> Inr None | Some j \<Rightarrow> castString p j)"

definition new_User :: "env \<Rightarrow> json option \<Rightarrow> json option \<Rightarrow> document" where
  "new_User en n e =
     (let cn = castPath ''name'' n; ce = castPath ''email'' e in
      \<lparr>doc = \<lparr>ident = new_ObjectId en,
                  name = (case cn of Inl _ \<Rightarrow> None | Inr s \<Rightarrow> s),
                  email = (case ce of Inl _ \<Rightarrow> None | Inr s \<Rightarrow> s)\<rparr>,
       invalid = (case cn of
                    Inl _ \<Rightarrow> Some (ValidationError ''name'')
                  | Inr _ \<Rightarrow>
                     (case ce of
                        Inl _ \<Rightarrow> Some (ValidationError ''email'')
                      | Inr _ \<Rightarrow> None))\<rparr>)"

text \<open>
  \<^verbatim>\<open>user.save()\<close> of a new document validates it and inserts it. The collection has the
  unique index on the identifier every MongoDB collection has: an insert of an identifier
  that is there already is a duplicate key error.
\<close>

definition User_save :: "env \<Rightarrow> document \<Rightarrow> world \<Rightarrow> (exn + unit) \<times> world" where
  "User_save en d w =
     (let w1 = issue Save w in
      case invalid d of
        Some x \<Rightarrow> (Inl x, w1)
      | None \<Rightarrow>
         (case store_throws en w of
            Some x \<Rightarrow> (Inl x, w1)
          | None \<Rightarrow>
             (case find (by_id (ident (doc d))) (usuarios w) of
                Some _ \<Rightarrow> (Inl DuplicateKey, w1)
              | None \<Rightarrow> (Inr (), w1\<lparr>usuarios := usuarios w @ [doc d]\<rparr>))))"

definition User_findById :: "env \<Rightarrow> string \<Rightarrow> world \<Rightarrow> (exn + user option) \<times> world" where
  "User_findById en oid_str w =
     (let w1 = issue (FindById oid_str) w in
      case store_throws en w of
        Some x \<Rightarrow> (Inl x, w1)
      | None \<Rightarrow>
         (case castObjectId oid_str of
            None \<Rightarrow> (Inl (CastError ''_id''), w1)
          | Some i \<Rightarrow> (Inr (find (by_id i) (usuarios w)), w1)))"

text \<open>
  \<^verbatim>\<open>User.findByIdAndUpdate(id, req.body, { new: true })\<close>. A body made of plain fields is an
  object none of whose members is an update operator (a name that starts with \<^verbatim>\<open>$\<close>), a
  path the driver manages itself (\<^verbatim>\<open>_id\<close>, \<^verbatim>\<open>__v\<close>) or a dotted path, and whose name and email,
  if it has them, are null, booleans, numbers or strings. Mongoose turns such a body into
  one \<^verbatim>\<open>$set\<close> of the paths of the schema, each value cast to its path; the schema is strict,
  so a field that is no path of the schema is dropped. What any other body does is the
  driver's and the server's business, and is taken from the outside (\<open>driver_update\<close>); it
  changes no identifier, which no update can. The first document with the identifier is
  changed and returned as it is after the change; with no such document the result is
  \<^verbatim>\<open>null\<close>.
\<close>

definition not_plain :: "string \<Rightarrow> bool" where
  "not_plain k = (k = ''_id'' \<or> k = ''__v'' \<or> take 1 k = ''$'' \<or> CHR ''.'' \<in> set k)"

fun scalar :: "json option \<Rightarrow> bool" where
  "scalar (Some (JArr _)) = False"
| "scalar (Some (JObj _)) = False"
| "scalar _ = True"

fun plain_fields :: "json \<Rightarrow> bool" where
  "plain_fields (JObj kvs) =
     (filter not_plain (map fst kvs) = [] \<and> scalar (map_of kvs ''name'')
      \<and> scalar (map_of kvs ''email''))"
| "plain_fields _ = False"

definition castSet :: "string \<Rightarrow> json option \<Rightarrow> exn + string option option" where
  "castSet p v =
     (case v of
        None \<Rightarrow> Inr None
      | Some j \<Rightarrow> (case castString p j of Inl x \<Rightarrow> Inl x | Inr s \<Rightarrow> Inr (Some s)))"

definition castUpdate :: "json \<Rightarrow> exn + update" where
  "castUpdate b =
     (case castSet ''name'' (property b ''name'') of
        Inl x \<Rightarrow> Inl x
      | Inr n \<Rightarrow>
         (case castSet ''email'' (property b ''email'') of
            Inl x \<Rightarrow> Inl x
          | Inr e \<Rightarrow> Inr \<lparr>set_name = n, set_email = e\<rparr>))"

definition update_of :: "env \<Rightarrow> json \<Rightarrow> user option \<Rightarrow> exn + update" where
  "update_of en b found = (if plain_fields b then castUpdate b else driver_update en b found)"

definition applyUpdate :: "update \<Rightarrow> user \<Rightarrow> user" where
  "applyUpdate up u =
     u\<lparr>name := (case set_name up of None \<Rightarrow> name u | Some v \<Rightarrow> v),
       email := (case set_email up of None \<Rightarrow> email u | Some v \<Rightarrow> v)\<rparr>"

fun replace_first :: "('a \<Rightarrow> bool) \<Rightarrow> ('a \<Rightarrow> 'a) \<Rightarrow> 'a list \<Rightarrow> 'a list" where
  "replace_first P f [] = []"
| "replace_first P f (x # xs) = (if P x then f x # xs else x # replace_first P f xs)"

fun delete_first :: "('a \<Rightarrow> bool) \<Rightarrow> 'a list \<Rightarrow> 'a list" where
  "delete_first P [] = []"
| "delete_first P (x # xs) = (if P x then xs else x # delete_first P xs)"

definition User_findByIdAndUpdate ::
  "env \<Rightarrow> string \<Rightarrow> json \<Rightarrow> world \<Rightarrow> (exn + user option) \<times> world" where
  "User_findByIdAndUpdate en oid_str b w =
     (let w1 = issue (FindByIdAndUpdate oid_str b) w in
      case store_throws en w of
        Some x \<Rightarrow> (Inl x, w1)
      | None \<Rightarrow>
         (case castObjectId oid_str of
            None \<Rightarrow> (Inl (CastError ''_id''), w1)
          | Some i \<Rightarrow>
             (case update_of en b (find (by_id i) (usuarios w)) of
                Inl x \<Rightarrow> (Inl x, w1)
              | Inr up \<Rightarrow>
                 (case find (by_id i) (usuarios w) of
                    None \<Rightarrow> (Inr None, w1)
                  | Some u \<Rightarrow>
                     (Inr (Some (applyUpdate up u)),
                      w1\<lparr>usuarios := replace_first (by_id i) (applyUpdate up) (usuarios w)\<rparr>)))))"

text \<open>
  \<^verbatim>\<open>User.deleteOne({ _id: id })\<close> removes the first document with the identifier, if there
  is one, and returns the number of documents it removed.
\<close>

definition User_deleteOne :: "env \<Rightarrow> string \<Rightarrow> world \<Rightarrow> (exn + nat) \<times> world" where
  "User_deleteOne en oid_str w =
     (let w1 = issue (DeleteOne oid_str) w in
      case store_throws en w of
        Some x \<Rightarrow> (Inl x, w1)
      | None \<Rightarrow>
         (case castObjectId oid_str of
            None \<Rightarrow> (Inl (CastError ''_id''), w1)
          | Some i \<Rightarrow>
             (case find (by_id i) (usuarios w) of
                None \<Rightarrow> (Inr 0, w1)
              | Some _ \<Rightarrow> (Inr 1, w1\<lparr>usuarios := delete_first (by_id i) (usuarios w)\<rparr>))))"


section \<open>The storage service\<close>

text \<open>
  The calls to the S3 client. A bucket holds its objects by key; an upload to a key that
  is there replaces the object, and the deletion of a key succeeds whether or not the key
  is there. A bucket that does not exist is an error of each of the calls on a bucket.
\<close>

datatype send_data = SendData string string

definition with_bucket ::
  "string \<Rightarrow> (s3object list \<Rightarrow> s3object list) \<Rightarrow> (string \<times> s3object list) list
     \<Rightarrow> (string \<times> s3object list) list" where
  "with_bucket b f bs = map (\<lambda>(n, os). if n = b then (n, f os) else (n, os)) bs"

definition has_key :: "string \<Rightarrow> s3object \<Rightarrow> bool" where
  "has_key k ob = (Key ob = k)"

definition other_key :: "string \<Rightarrow> s3object \<Rightarrow> bool" where
  "other_key k ob = (Key ob \<noteq> k)"

definition s3_listBuckets :: "env \<Rightarrow> world \<Rightarrow> (exn + string list) \<times> world" where
  "s3_listBuckets en w =
     (let w1 = issue ListBuckets w in
      case s3_throws en of
        Some x \<Rightarrow> (Inl x, w1)
      | None \<Rightarrow> (Inr (map fst (buckets w)), w1))"

definition s3_listObjectsV2 :: "env \<Rightarrow> string \<Rightarrow> world \<Rightarrow> (exn + s3object list) \<times> world" where
  "s3_listObjectsV2 en b w =
     (let w1 = issue (ListObjectsV2 b) w in
      case s3_throws en of
        Some x \<Rightarrow> (Inl x, w1)
      | None \<Rightarrow>
         (case map_of (buckets w) b of
            None \<Rightarrow> (Inl (NoSuchBucket b), w1)
          | Some os \<Rightarrow> (Inr os, w1)))"

definition s3_upload :: "env \<Rightarrow> string \<Rightarrow> s3object \<Rightarrow> world \<Rightarrow> (exn + send_data) \<times> world" where
  "s3_upload en b ob w =
     (let w1 = issue (Upload b (Key ob)) w in
      case s3_throws en of
        Some x \<Rightarrow> (Inl x, w1)
      | None \<Rightarrow>
         (case map_of (buckets w) b of
            None \<Rightarrow> (Inl (NoSuchBucket b), w1)
          | Some _ \<Rightarrow>
             (Inr (SendData b (Key ob)),
              w1\<lparr>buckets :=
                   with_bucket b (\<lambda>os. filter (other_key (Key ob)) os @ [ob]) (buckets w)\<rparr>)))"

definition s3_deleteObject :: "env \<Rightarrow> string \<Rightarrow> string \<Rightarrow> world \<Rightarrow> (exn + unit) \<times> world" where
  "s3_deleteObject en b k w =
     (let w1 = issue (DeleteObject b k) w in
      case s3_throws en of
        Some x \<Rightarrow> (Inl x, w1)
      | None \<Rightarrow>
         (case map_of (buckets w) b of
            None \<Rightarrow> (Inl (NoSuchBucket b), w1)
          | Some _ \<Rightarrow>
             (Inr (), w1\<lparr>buckets := with_bucket b (filter (other_key k)) (buckets w)\<rparr>)))"

section \<open>The logger\<close>

text \<open>
  Modelled from the spec: the module \<^verbatim>\<open>./logger\<close> with \<^verbatim>\<open>logInfo\<close> and \<^verbatim>\<open>logError\<close> is not
  among the sources. The spec has the logger record informational and error events in an
  append-only sink; here an event goes to the history of calls, and the logger does not
  throw.
\<close>

definition logInfo :: "string \<Rightarrow> world \<Rightarrow> world" where
  "logInfo m w = issue (LogInfo m) w"

definition logError :: "log_text \<Rightarrow> exn \<Rightarrow> world \<Rightarrow> world" where
  "logError m x w = issue (LogError m x) w"

section \<open>Requests and responses\<close>

text \<open>
  A request: the parameters of the path, the parsed body, the files its multipart body
  carries, each with the name of its field and in the order they come (none when the body
  is not multipart), and \<^verbatim>\<open>req.file\<close>, which is not set until a middleware sets it.
\<close>

record upload_file =
  originalname :: string
  buffer :: string
  mimetype :: string

record request =
  params_id :: string
  params_bucketName :: string
  params_fileName :: string
  body :: json
  files :: "(string \<times> upload_file) list"
  req_file :: "upload_file option"

text \<open>
  What a handler sends: plain text, or one of the JSON shapes of the source
  (\<^verbatim>\<open>{ message }\<close>, \<^verbatim>\<open>{ message, error }\<close>, \<^verbatim>\<open>{ error, details }\<close>, \<^verbatim>\<open>{ message, data }\<close>, a
  document, a list), or the page of Express's own error handler for an error no handler
  of the application caught. \<^verbatim>\<open>res.send\<close> with no status set answers 200. The texts of
  the source are written without their accents.
\<close>

datatype payload =
    Text string
  | Message string
  | MessageError string string
  | ErrorDetails string exn
  | MessageData string send_data
  | Doc user
  | Docs "user list"
  | BucketList "string list"
  | Contents "s3object list"
  | ErrorPage exn

record response =
  status :: nat
  sent :: payload

text \<open>JavaScript's \<^verbatim>\<open>!\<close>.\<close>

definition js_not :: "json option \<Rightarrow> bool" where
  "js_not v = (\<not> truthy v)"

section \<open>The handlers of the user routes\<close>

text \<open>
  \<^verbatim>\<open>GET /mongodb/testar-conexao\<close>. The body of the \<^verbatim>\<open>try\<close> block first, which stops at the
  first call that throws; then the handler with its \<^verbatim>\<open>catch\<close> and its \<^verbatim>\<open>finally\<close>.
\<close>

definition testar_conexao_try :: "env \<Rightarrow> world \<Rightarrow> (exn + response) \<times> world" where
  "testar_conexao_try en w =
     (case mongoose_connect en w of
        (Inl error, w1) \<Rightarrow> (Inl error, w1)
      | (Inr _, w1) \<Rightarrow>
         (case User_findOne en w1 of
            (Inl error, w2) \<Rightarrow> (Inl error, w2)
          | (Inr user, w2) \<Rightarrow>
             (let w3 = logInfo ''Conexao com o MongoDB efetuada com sucesso'' w2 in
              if user \<noteq> None
              then (Inr \<lparr>status = 200,
                         sent = Text ''Conexao com o MongoDB bem-sucedida e usuario encontrado!''\<rparr>,
                    w3)
              else (Inr \<lparr>status = 200,
                         sent = Text
                           ''Conexao com o MongoDB bem-sucedida, mas nenhum usuario encontrado.''\<rparr>,
                    w3))))"

definition testar_conexao :: "env \<Rightarrow> request \<Rightarrow> world \<Rightarrow> response \<times> world" where
  "testar_conexao en req w =
     (let (res, w2) =
        (case testar_conexao_try en w of
           (Inr res, w1) \<Rightarrow> (res, w1)
         | (Inl error, w1) \<Rightarrow>
            (\<lparr>status = 500, sent = Text ''Erro na conexao com o MongoDB''\<rparr>,
             logError (Concat ''Erro ao conectar no MongoDb'' error) error w1))
      in (res, connection_close w2))"

text \<open>\<^verbatim>\<open>POST /usuarios\<close>.\<close>

definition post_usuarios :: "env \<Rightarrow> request \<Rightarrow> world \<Rightarrow> response \<times> world" where
  "post_usuarios en req w =
     (let n = property (body req) ''name''; e = property (body req) ''email'' in
      if js_not n \<or> js_not e
      then (\<lparr>status = 400, sent = Message ''Nome e email sao obrigatorios.''\<rparr>, w)
      else
        (let user = new_User en n e in
         case User_save en user w of
           (Inr _, w1) \<Rightarrow>
             (\<lparr>status = 201, sent = Doc (doc user)\<rparr>, logInfo ''Usuario criado'' w1)
         | (Inl error, w1) \<Rightarrow>
             (\<lparr>status = 500, sent = MessageError ''Erro ao criar usuario'' (message error)\<rparr>,
              logError (Literal ''Erro ao criar usuario'') error w1)))"

text \<open>\<^verbatim>\<open>GET /usuarios\<close>.\<close>

definition get_usuarios :: "env \<Rightarrow> request \<Rightarrow> world \<Rightarrow> response \<times> world" where
  "get_usuarios en req w =
     (case User_find en w of
        (Inr users, w1) \<Rightarrow>
          (\<lparr>status = 200, sent = Docs users\<rparr>, logInfo ''Usuarios encontrados'' w1)
      | (Inl error, w1) \<Rightarrow>
          (\<lparr>status = 500, sent = Text ''Ocorreu um erro interno''\<rparr>,
           logError (Literal ''Erro ao buscar usuarios'') error w1))"

text \<open>\<^verbatim>\<open>GET /usuarios/:id\<close>.\<close>

definition get_usuario :: "env \<Rightarrow> request \<Rightarrow> world \<Rightarrow> response \<times> world" where
  "get_usuario en req w =
     (case User_findById en (params_id req) w of
        (Inr None, w1) \<Rightarrow> (\<lparr>status = 404, sent = Text ''Usuario nao encontrado''\<rparr>, w1)
      | (Inr (Some user), w1) \<Rightarrow>
          (\<lparr>status = 200, sent = Doc user\<rparr>, logInfo ''Usuario encontrado'' w1)
      | (Inl error, w1) \<Rightarrow>
          (\<lparr>status = 500, sent = Text ''Ocorreu um erro interno''\<rparr>,
           logError (Literal ''Erro ao buscar usuario'') error w1))"

text \<open>\<^verbatim>\<open>PUT /usuarios/:id\<close>.\<close>

definition put_usuario :: "env \<Rightarrow> request \<Rightarrow> world \<Rightarrow> response \<times> world" where
  "put_usuario en req w =
     (case User_findByIdAndUpdate en (params_id req) (body req) w of
        (Inr None, w1) \<Rightarrow> (\<lparr>status = 404, sent = Text ''Usuario nao encontrado''\<rparr>, w1)
      | (Inr (Some user), w1) \<Rightarrow>
          (\<lparr>status = 200, sent = Doc user\<rparr>, logInfo ''Usuario atualizado'' w1)
      | (Inl error, w1) \<Rightarrow>
          (\<lparr>status = 500, sent = Text ''Ocorreu um erro interno''\<rparr>,
           logError (Literal ''Erro ao atualizar usuario'') error w1))"

text \<open>\<^verbatim>\<open>DELETE /usuarios/:id\<close>.\<close>

definition delete_usuario :: "env \<Rightarrow> request \<Rightarrow> world \<Rightarrow> response \<times> world" where
  "delete_usuario en req w =
     (case User_deleteOne en (params_id req) w of
        (Inr deletedCount, w1) \<Rightarrow>
          (if deletedCount = 0
           then (\<lparr>status = 404, sent = Text ''Usuario nao encontrado''\<rparr>, w1)
           else (\<lparr>status = 200, sent = Message ''Usuario removido com sucesso''\<rparr>,
                 logInfo ''Usuario removido'' w1))
      | (Inl error, w1) \<Rightarrow>
          (\<lparr>status = 500, sent = Text ''Ocorreu um erro interno''\<rparr>,
           logError (Literal ''Erro ao remover usuario'') error w1))"

section \<open>The handlers of the bucket routes\<close>

text \<open>\<^verbatim>\<open>GET /buckets\<close>.\<close>

definition get_buckets :: "env \<Rightarrow> request \<Rightarrow> world \<Rightarrow> response \<times> world" where
  "get_buckets en req w =
     (case s3_listBuckets en w of
        (Inr data, w1) \<Rightarrow>
          (\<lparr>status = 200, sent = BucketList data\<rparr>, logInfo ''Buckets encontrados'' w1)
      | (Inl error, w1) \<Rightarrow>
          (\<lparr>status = 500, sent = ErrorDetails ''Erro ao listar buckets'' error\<rparr>,
           logError (Literal ''Erro ao buscar buckets'') error w1))"

text \<open>\<^verbatim>\<open>GET /buckets/:bucketName\<close>.\<close>

definition get_bucket :: "env \<Rightarrow> request \<Rightarrow> world \<Rightarrow> response \<times> world" where
  "get_bucket en req w =
     (let bucketName = params_bucketName req in
      case s3_listObjectsV2 en bucketName w of
        (Inr data, w1) \<Rightarrow>
          (\<lparr>status = 200, sent = Contents data\<rparr>, logInfo ''Objetos encontrados'' w1)
      | (Inl error, w1) \<Rightarrow>
          (\<lparr>status = 500, sent = ErrorDetails ''Erro ao listar objetos do bucket'' error\<rparr>,
           logError (Literal ''Erro ao buscar objetos'') error w1))"

text \<open>
  \<^verbatim>\<open>POST /buckets/:bucketName/upload\<close>. The route has two stages: the multipart middleware
  \<^verbatim>\<open>upload.single('file')\<close>, then the handler.

  The middleware (Multer, with the files kept in memory) takes the files of the request
  in their order and accepts one file in the field it is given; a file in another field,
  or a second file in that field, is an error (\<^verbatim>\<open>LIMIT_UNEXPECTED_FILE\<close>) it passes on, and the
  handler is not called. The accepted file, if any, is \<^verbatim>\<open>req.file\<close>.
\<close>

fun multer_files ::
  "string \<Rightarrow> nat \<Rightarrow> (string \<times> upload_file) list \<Rightarrow> upload_file option
     \<Rightarrow> exn + upload_file option" where
  "multer_files fieldname filesLeft [] accepted = Inr accepted"
| "multer_files fieldname filesLeft ((k, f) # rest) accepted =
     (if k = fieldname \<and> 0 < filesLeft
      then multer_files fieldname (filesLeft - 1) rest (Some f)
      else Inl (MulterError k))"

definition upload_single :: "string \<Rightarrow> request \<Rightarrow> exn + request" where
  "upload_single fieldname req =
     (case multer_files fieldname 1 (files req) None of
        Inl err \<Rightarrow> Inl err
      | Inr accepted \<Rightarrow> Inr (req\<lparr>req_file := accepted\<rparr>))"

text \<open>
  The application has no error handler of its own, so an error a middleware passes on
  reaches the one of Express, which answers with the status of the error, or 500 for an
  error that has none, as those of Multer.
\<close>

definition default_error_handler :: "exn \<Rightarrow> response" where
  "default_error_handler err = \<lparr>status = 500, sent = ErrorPage err\<rparr>"

text \<open>The handler.\<close>

definition post_upload_handler :: "env \<Rightarrow> request \<Rightarrow> world \<Rightarrow> response \<times> world" where
  "post_upload_handler en req w =
     (let bucketName = params_bucketName req in
      case req_file req of
        None \<Rightarrow> (\<lparr>status = 400, sent = Message ''Nenhum arquivo enviado.''\<rparr>, w)
      | Some f \<Rightarrow>
          (let params = \<lparr>Key = originalname f, Body = buffer f, ContentType = mimetype f\<rparr> in
           case s3_upload en bucketName params w of
             (Inr data, w1) \<Rightarrow>
               (\<lparr>status = 200, sent = MessageData ''Upload concluido com sucesso'' data\<rparr>,
                logInfo ''Upload efetuado'' w1)
           | (Inl error, w1) \<Rightarrow>
               (\<lparr>status = 500, sent = MessageError ''Erro no upload'' (message error)\<rparr>,
                logError (Literal ''Erro ao efetuar upload'') error w1)))"

text \<open>The route.\<close>

definition post_upload :: "env \<Rightarrow> request \<Rightarrow> world \<Rightarrow> response \<times> world" where
  "post_upload en req w =
     (case upload_single ''file'' req of
        Inl err \<Rightarrow> (default_error_handler err, w)
      | Inr req1 \<Rightarrow> post_upload_handler en req1 w)"

text \<open>\<^verbatim>\<open>DELETE /buckets/:bucketName/file/:fileName\<close>.\<close>

definition delete_file :: "env \<Rightarrow> request \<Rightarrow> world \<Rightarrow> response \<times> world" where
  "delete_file en req w =
     (let bucketName = params_bucketName req; fileName = params_fileName req in
      case s3_deleteObject en bucketName fileName w of
        (Inr _, w1) \<Rightarrow>
          (\<lparr>status = 200, sent = Message ''Arquivo deletado com sucesso''\<rparr>,
           logInfo ''Objeto removido'' w1)
      | (Inl error, w1) \<Rightarrow>
          (\<lparr>status = 500, sent = MessageError ''Erro ao remover arquivo'' (message error)\<rparr>,
           logError (Literal ''Erro ao remover objeto'') error w1))"

section \<open>The application\<close>

text \<open>
  Express picks the handler by the method and the path of the request. A run of the server
  is the requests it serves one after the other, each with what the outside decides during
  it; \<open>serve\<close> gives the world after the run.
\<close>

datatype route =
    GET_testar_conexao
  | POST_usuarios
  | GET_usuarios
  | GET_usuario
  | PUT_usuario
  | DELETE_usuario
  | GET_buckets
  | GET_bucket
  | POST_upload
  | DELETE_file

fun handle :: "route \<Rightarrow> env \<Rightarrow> request \<Rightarrow> world \<Rightarrow> response \<times> world" where
  "handle GET_testar_conexao = testar_conexao"
| "handle POST_usuarios = post_usuarios"
| "handle GET_usuarios = get_usuarios"
| "handle GET_usuario = get_usuario"
| "handle PUT_usuario = put_usuario"
| "handle DELETE_usuario = delete_usuario"
| "handle GET_buckets = get_buckets"
| "handle GET_bucket = get_bucket"
| "handle POST_upload = post_upload"
| "handle DELETE_file = delete_file"

fun serve :: "(route \<times> env \<times> request) list \<Rightarrow> world \<Rightarrow> world" where
  "serve [] w = w"
| "serve ((rt, en, req) # rest) w = serve rest (snd (handle rt en req w))"

text \<open>The routes that update or delete a user.\<close>

fun update_or_delete :: "route \<times> env \<times> request \<Rightarrow> bool" where
  "update_or_delete (PUT_usuario, _) = True"
| "update_or_delete (DELETE_usuario, _) = True"
| "update_or_delete _ = False"

text \<open>The route that tests the connection, and closes it.\<close>

fun connection_test :: "route \<times> env \<times> request \<Rightarrow> bool" where
  "connection_test (GET_testar_conexao, _) = True"
| "connection_test _ = False"

text \<open>A file of a request that sits in a given field.\<close>

definition in_field :: "string \<Rightarrow> string \<times> upload_file \<Rightarrow> bool" where
  "in_field k p = (fst p = k)"

text \<open>
  The identifiers of a collection are unique: MongoDB keeps a unique index on the
  identifier of every collection.
\<close>

definition unique_ids :: "world \<Rightarrow> bool" where
  "unique_ids w = distinct (map ident (usuarios w))"

section \<open>A scenario\<close>

text \<open>
  The scenario of the spec, for concrete instances of the theorems below: a request that
  carries \<^verbatim>\<open>{"name":"Ana","email":"ana@x.com"}\<close>; an outside where nothing fails, and where
  the one update operator the driver is given is \<^verbatim>\<open>$set\<close>, on plain fields; a world with an
  open connection, an empty collection and one empty bucket, and the same world with
  Ana's document in the collection; and a picture for the uploads.
\<close>

definition foto :: upload_file where
  "foto = \<lparr>originalname = ''ana.png'', buffer = ''PNG'', mimetype = ''image/png''\<rparr>"

definition set_only :: "json \<Rightarrow> user option \<Rightarrow> exn + update" where
  "set_only b found =
     (case b of
        JObj [(k, fs)] \<Rightarrow>
          (if k = ''$set'' \<and> plain_fields fs then castUpdate fs
           else Inl (MongoError ''Unknown modifier''))
      | _ \<Rightarrow> Inl (MongoError ''Unknown modifier''))"

definition quiet :: env where
  "quiet = \<lparr>new_ObjectId = 1, mongo_throws = None, connect_throws = None, s3_throws = None,
            driver_update = set_only\<rparr>"

definition start :: world where
  "start = \<lparr>usuarios = [], connected = True, buckets = [(''fotos'', [])], calls = []\<rparr>"

definition ana :: request where
  "ana = \<lparr>params_id = ''000000000000000000000001'', params_bucketName = ''fotos'',
          params_fileName = ''ana.png'',
          body = JObj [(''name'', JStr ''Ana''), (''email'', JStr ''ana@x.com'')],
          files = [], req_file = None\<rparr>"

definition with_ana :: world where
  "with_ana =
     start\<lparr>usuarios := [\<lparr>ident = 1, name = Some ''Ana'', email = Some ''ana@x.com''\<rparr>]\<rparr>"

section \<open>An identifier survives the trip to the client and back\<close>

lemma hex_value_digit: "d < 16 \<Longrightarrow> hex_value (hex_digit d) = Some d"
proof -
  assume "d < 16"
  then have "d = 0 \<or> d = 1 \<or> d = 2 \<or> d = 3 \<or> d = 4 \<or> d = 5 \<or> d = 6 \<or> d = 7 \<or> d = 8
      \<or> d = 9 \<or> d = 10 \<or> d = 11 \<or> d = 12 \<or> d = 13 \<or> d = 14 \<or> d = 15"
    by presburger
  then show ?thesis
    by (elim disjE) (simp_all add: hex_value_def hex_digit_def)
qed

lemma length_hex_of_nat: "length (hex_of_nat k n) = k"
  by (induction k arbitrary: n) auto

lemma nat_of_hex_append:
  "nat_of_hex acc (xs @ ys) =
     (case nat_of_hex acc xs of None \<Rightarrow> None | Some a \<Rightarrow> nat_of_hex a ys)"
  by (induction xs arbitrary: acc) (auto split: option.splits)

lemma nat_of_hex_of_nat:
  "nat_of_hex acc (hex_of_nat k n) = Some (acc * 16 ^ k + n mod 16 ^ k)"
proof (induction k arbitrary: n)
  case 0
  then show ?case by simp
next
  case (Suc k)
  have "n mod (16 * 16 ^ k) = 16 * ((n div 16) mod 16 ^ k) + n mod 16"
    by (simp add: mod_mult2_eq)
  then show ?case
    by (simp add: nat_of_hex_append Suc hex_value_digit algebra_simps)
qed

lemma castObjectId_toHexString: "castObjectId (toHexString i) = Some i"
proof -
  have "unat i < 2 ^ 96" using unsigned_less [of i] by simp
  then have "unat i mod 16 ^ 24 = unat i" by simp
  then show ?thesis
    by (simp add: castObjectId_def toHexString_def length_hex_of_nat nat_of_hex_of_nat)
qed

lemma castObjectId_ana: "castObjectId (params_id ana) = Some 1"
  by (simp add: ana_def castObjectId_def hex_value_def)

section \<open>Searching and changing a collection\<close>

lemma find_append_Some: "find P xs = Some x \<Longrightarrow> find P (xs @ ys) = Some x"
  by (induction xs) (auto split: if_splits)

lemma find_append_None: "find P xs = None \<Longrightarrow> find P (xs @ ys) = find P ys"
  by (induction xs) (auto split: if_splits)

lemma filter_find_None: "find P xs = None \<Longrightarrow> filter P xs = []"
  by (induction xs) (auto split: if_splits)

lemma find_by_id_ident: "find (by_id i) us = Some u \<Longrightarrow> ident u = i"
  by (induction us) (auto simp: by_id_def split: if_splits)

lemma find_by_id_None: "find (by_id i) us = None \<Longrightarrow> i \<notin> ident ` set us"
  by (induction us) (auto simp: by_id_def split: if_splits)

lemma map_ident_replace_first:
  "(\<And>v. ident (f v) = ident v) \<Longrightarrow> map ident (replace_first P f us) = map ident us"
  by (induction us) auto

lemma find_replace_first:
  "find P us = Some u \<Longrightarrow> P (f u) \<Longrightarrow> find P (replace_first P f us) = Some (f u)"
  by (induction us) (auto split: if_splits)

lemma filter_replace_first:
  "(\<And>v. P v \<Longrightarrow> \<not> Q v \<and> \<not> Q (f v)) \<Longrightarrow> filter Q (replace_first P f us) = filter Q us"
  by (induction us) auto


lemma set_delete_first_subset: "set (delete_first P us) \<subseteq> set us"
  by (induction us) auto

lemma distinct_delete_first:
  "distinct (map ident us) \<Longrightarrow> distinct (map ident (delete_first P us))"
  using set_delete_first_subset [of P] by (induction us) (auto simp: image_iff)



section \<open>The calls of the model\<close>

lemmas world_simps = issue_def logInfo_def logError_def store_throws_def

lemma new_User_strings:
  "new_User en (Some (JStr n)) (Some (JStr e)) =
     \<lparr>doc = \<lparr>ident = new_ObjectId en, name = Some n, email = Some e\<rparr>, invalid = None\<rparr>"
  by (simp add: new_User_def castPath_def)

lemma applyUpdate_ident: "ident (applyUpdate up u) = ident u"
  by (simp add: applyUpdate_def)

lemma update_of_name:
  "update_of en (JObj [(''name'', JStr x)]) found
     = Inr \<lparr>set_name = Some (Some x), set_email = None\<rparr>"
  by (simp add: update_of_def not_plain_def castUpdate_def castSet_def property_def)


lemma post_upload_world:
  "snd (post_upload en req w) = w \<or>
   usuarios (snd (post_upload en req w)) = usuarios w \<and>
   connected (snd (post_upload en req w)) = connected w"
  by (auto simp: post_upload_def post_upload_handler_def upload_single_def
        default_error_handler_def s3_upload_def world_simps Let_def
        split: option.splits sum.splits)

lemma find_ana:
  "find (by_id 1) (usuarios with_ana)
     = Some \<lparr>ident = 1, name = Some ''Ana'', email = Some ''ana@x.com''\<rparr>"
  by (simp add: with_ana_def start_def by_id_def)

section \<open>The identifiers stay unique\<close>

text \<open>
  No handler breaks the uniqueness of the identifiers, so it holds in every world the
  server reaches from an empty collection.
\<close>

lemma unique_ids_handle: "unique_ids w \<Longrightarrow> unique_ids (snd (handle rt en req w))"
proof (cases rt)
  case POST_usuarios
  assume "unique_ids w"
  then show ?thesis using POST_usuarios
    by (auto simp: unique_ids_def post_usuarios_def User_save_def new_User_def world_simps Let_def
          dest: find_by_id_None split: option.splits sum.splits)
next
  case PUT_usuario
  assume "unique_ids w"
  then show ?thesis using PUT_usuario
    by (auto simp: unique_ids_def put_usuario_def User_findByIdAndUpdate_def world_simps Let_def
          map_ident_replace_first applyUpdate_ident split: option.splits sum.splits)
next
  case DELETE_usuario
  assume "unique_ids w"
  then show ?thesis using DELETE_usuario
    by (auto simp: unique_ids_def delete_usuario_def User_deleteOne_def world_simps Let_def
          distinct_delete_first split: option.splits sum.splits)
next
  case POST_upload
  assume "unique_ids w"
  then show ?thesis using POST_upload post_upload_world [of en req w]
    by (auto simp: unique_ids_def)
qed (auto simp: unique_ids_def testar_conexao_def testar_conexao_try_def mongoose_connect_def
       User_findOne_def connection_close_def get_usuarios_def User_find_def get_usuario_def
       User_findById_def get_buckets_def s3_listBuckets_def get_bucket_def s3_listObjectsV2_def
       delete_file_def s3_deleteObject_def world_simps Let_def
       split: option.splits sum.splits list.splits)

lemma unique_ids_serve: "unique_ids w \<Longrightarrow> unique_ids (serve steps w)"
  by (induction steps arbitrary: w) (auto simp: unique_ids_handle)

lemma unique_ids_from_empty: "usuarios w = [] \<Longrightarrow> unique_ids (serve steps w)"
  by (rule unique_ids_serve) (simp add: unique_ids_def)

text \<open>
  A document stays where it is while no request updates or deletes a user, and the
  connection stays as it is while no request tests it.
\<close>

lemma find_kept_handle:
  "\<not> update_or_delete (rt, en, req) \<Longrightarrow> find (by_id i) (usuarios w) = Some u \<Longrightarrow>
   find (by_id i) (usuarios (snd (handle rt en req w))) = Some u"
proof (cases rt)
  case POST_upload
  assume "find (by_id i) (usuarios w) = Some u"
  then show ?thesis using POST_upload post_upload_world [of en req w] by auto
qed (auto simp: testar_conexao_def testar_conexao_try_def mongoose_connect_def
       User_findOne_def connection_close_def get_usuarios_def User_find_def get_usuario_def
       User_findById_def get_buckets_def s3_listBuckets_def get_bucket_def s3_listObjectsV2_def
       delete_file_def s3_deleteObject_def world_simps Let_def
       post_usuarios_def User_save_def find_append_Some
       split: option.splits sum.splits list.splits)

lemma connected_kept_handle:
  "\<not> connection_test (rt, en, req) \<Longrightarrow>
   connected (snd (handle rt en req w)) = connected w"
proof (cases rt)
  case POST_upload
  then show ?thesis using post_upload_world [of en req w] by auto
qed (auto simp: get_usuarios_def User_find_def get_usuario_def
       User_findById_def get_buckets_def s3_listBuckets_def get_bucket_def s3_listObjectsV2_def
       delete_file_def s3_deleteObject_def world_simps Let_def
       post_usuarios_def User_save_def put_usuario_def User_findByIdAndUpdate_def
       delete_usuario_def User_deleteOne_def
       split: option.splits sum.splits list.splits)

lemma kept_serve:
  "filter update_or_delete steps = [] \<Longrightarrow> filter connection_test steps = [] \<Longrightarrow>
   find (by_id i) (usuarios w) = Some u \<Longrightarrow>
   find (by_id i) (usuarios (serve steps w)) = Some u \<and>
   connected (serve steps w) = connected w"
proof (induction steps arbitrary: w)
  case Nil
  then show ?case by simp
next
  case (Cons s steps)
  obtain rt en req where s: "s = (rt, en, req)" by (cases s)
  from Cons.prems(1) have n: "\<not> update_or_delete (rt, en, req)"
    and r: "filter update_or_delete steps = []"
    by (auto simp: s split: if_splits)
  from Cons.prems(2) have c: "\<not> connection_test (rt, en, req)"
    and t: "filter connection_test steps = []"
    by (auto simp: s split: if_splits)
  show ?case
    using Cons.IH [OF r t find_kept_handle [OF n Cons.prems(3)]] connected_kept_handle [OF c]
    by (simp add: s)
qed

section \<open>The claims\<close>

text \<open>
  C1, as amended. Create, then read: when a request whose body has the strings \<open>n\<close> and
  \<open>e\<close> as name and email is answered 201, the document in the answer is the generated
  identifier with that name and that email; and after any requests that neither update
  nor delete a user nor test the connection, a read of the identifier as the client got it
  (its 24 hexadecimal digits), during which the store does not fail, is answered 200 with
  the same document.
\<close>

theorem create_then_read:
  assumes "property (body req) ''name'' = Some (JStr n)"
      and "property (body req) ''email'' = Some (JStr e)"
      and "post_usuarios en req w = (res, w1)"
      and "status res = 201"
      and "filter update_or_delete between = []"
      and "filter connection_test between = []"
      and "mongo_throws en2 = None"
  shows "sent res = Doc \<lparr>ident = new_ObjectId en, name = Some n, email = Some e\<rparr> \<and>
         fst (get_usuario en2 (req2\<lparr>params_id := toHexString (new_ObjectId en)\<rparr>)
                (serve between w1))
           = \<lparr>status = 200,
              sent = Doc \<lparr>ident = new_ObjectId en, name = Some n, email = Some e\<rparr>\<rparr>"
proof -
  let ?u = "\<lparr>ident = new_ObjectId en, name = Some n, email = Some e\<rparr>"
  from assms(1-4) have sent: "sent res = Doc ?u"
    and found: "find (by_id (new_ObjectId en)) (usuarios w1) = Some ?u"
    and conn: "connected w1"
    by (auto simp: post_usuarios_def new_User_strings User_save_def world_simps Let_def
          find_append_None by_id_def split: if_splits option.splits)
  from kept_serve [OF assms(5) assms(6) found] conn
  have "find (by_id (new_ObjectId en)) (usuarios (serve between w1)) = Some ?u"
    and "connected (serve between w1)"
    by simp_all
  then have "fst (get_usuario en2 (req2\<lparr>params_id := toHexString (new_ObjectId en)\<rparr>)
                    (serve between w1))
           = \<lparr>status = 200, sent = Doc ?u\<rparr>"
    using assms(7)
    by (simp add: get_usuario_def User_findById_def castObjectId_toHexString world_simps Let_def)
  with sent show ?thesis by simp
qed

theorem create_then_read_witness:
  "status (fst (post_usuarios quiet ana start)) = 201 \<and>
   fst (get_usuario quiet (ana\<lparr>params_id := toHexString 1\<rparr>)
          (serve [(GET_usuarios, quiet, ana), (POST_usuarios, quiet\<lparr>new_ObjectId := 2\<rparr>, ana)]
             (snd (post_usuarios quiet ana start))))
     = \<lparr>status = 200, sent = Doc \<lparr>ident = 1, name = Some ''Ana'', email = Some ''ana@x.com''\<rparr>\<rparr>"
proof -
  have n: "property (body ana) ''name'' = Some (JStr ''Ana'')"
    and e: "property (body ana) ''email'' = Some (JStr ''ana@x.com'')"
    by (simp_all add: ana_def property_def)
  have p: "post_usuarios quiet ana start
             = (fst (post_usuarios quiet ana start), snd (post_usuarios quiet ana start))"
    by simp
  have s: "status (fst (post_usuarios quiet ana start)) = 201"
    by (simp add: post_usuarios_def ana_def property_def js_not_def new_User_strings
          User_save_def quiet_def start_def world_simps)
  have b: "filter update_or_delete
             [(GET_usuarios, quiet, ana), (POST_usuarios, quiet\<lparr>new_ObjectId := 2\<rparr>, ana)] = []"
    by simp
  have t: "filter connection_test
             [(GET_usuarios, quiet, ana), (POST_usuarios, quiet\<lparr>new_ObjectId := 2\<rparr>, ana)] = []"
    by simp
  have q: "mongo_throws quiet = None" by (simp add: quiet_def)
  show ?thesis
    using create_then_read [OF n e p s b t q, of ana] s by (simp add: quiet_def)
qed

text \<open>
  C1, as stated, fails: Ana is created with 201; the one request in between is the
  connection test, which neither updates nor deletes a user but closes the shared
  connection; the read of the identifier create returned, with nothing failing outside,
  is then answered 500.
\<close>

theorem create_then_read_counterexample:
  "property (body ana) ''name'' = Some (JStr ''Ana'') \<and>
   property (body ana) ''email'' = Some (JStr ''ana@x.com'') \<and>
   fst (post_usuarios quiet ana start)
     = \<lparr>status = 201, sent = Doc \<lparr>ident = 1, name = Some ''Ana'', email = Some ''ana@x.com''\<rparr>\<rparr> \<and>
   filter update_or_delete [(GET_testar_conexao, quiet, ana)] = [] \<and>
   fst (get_usuario quiet (ana\<lparr>params_id := toHexString 1\<rparr>)
          (serve [(GET_testar_conexao, quiet, ana)] (snd (post_usuarios quiet ana start))))
     = \<lparr>status = 500, sent = Text ''Ocorreu um erro interno''\<rparr>"
proof -
  have p: "post_usuarios quiet ana start
             = (\<lparr>status = 201,
                 sent = Doc \<lparr>ident = 1, name = Some ''Ana'', email = Some ''ana@x.com''\<rparr>\<rparr>,
                start\<lparr>usuarios := [\<lparr>ident = 1, name = Some ''Ana'', email = Some ''ana@x.com''\<rparr>],
                      calls := [Save, LogInfo ''Usuario criado'']\<rparr>)"
    by (simp add: post_usuarios_def ana_def property_def js_not_def new_User_strings
          User_save_def quiet_def start_def world_simps)
  have c: "connected (snd (testar_conexao quiet ana w)) = False" for w
    by (simp add: testar_conexao_def connection_close_def world_simps split: prod.splits)
  have "fst (get_usuario quiet (ana\<lparr>params_id := toHexString 1\<rparr>)
          (serve [(GET_testar_conexao, quiet, ana)] (snd (post_usuarios quiet ana start))))
     = \<lparr>status = 500, sent = Text ''Ocorreu um erro interno''\<rparr>"
    by (simp add: get_usuario_def User_findById_def world_simps c Let_def)
  then show ?thesis
    by (simp add: p) (simp add: ana_def property_def)
qed

text \<open>
  C2. A create request whose body has non-empty strings as name and email: when the write
  to the store (\<^verbatim>\<open>user.save()\<close>) succeeds, the answer is 201 with the document made of the
  generated identifier, the given name and the given email, no document of the collection
  had that identifier before, and exactly this document has it afterwards; when the write
  throws, the answer is 500.
\<close>

theorem create_status_and_record:
  assumes "property (body req) ''name'' = Some (JStr n)" and "n \<noteq> []"
      and "property (body req) ''email'' = Some (JStr e)" and "e \<noteq> []"
  shows "(fst (User_save en (new_User en (Some (JStr n)) (Some (JStr e))) w) = Inr () \<longrightarrow>
            fst (post_usuarios en req w)
              = \<lparr>status = 201,
                 sent = Doc \<lparr>ident = new_ObjectId en, name = Some n, email = Some e\<rparr>\<rparr> \<and>
            find (by_id (new_ObjectId en)) (usuarios w) = None \<and>
            filter (by_id (new_ObjectId en)) (usuarios (snd (post_usuarios en req w)))
              = [\<lparr>ident = new_ObjectId en, name = Some n, email = Some e\<rparr>]) \<and>
         (\<forall>x. fst (User_save en (new_User en (Some (JStr n)) (Some (JStr e))) w) = Inl x \<longrightarrow>
            fst (post_usuarios en req w)
              = \<lparr>status = 500, sent = MessageError ''Erro ao criar usuario'' (message x)\<rparr>)"
  using assms
  by (auto simp: post_usuarios_def js_not_def new_User_strings User_save_def world_simps
        Let_def filter_find_None by_id_def split: option.splits)

theorem create_status_and_record_witness:
  "fst (User_save quiet (new_User quiet (Some (JStr ''Ana'')) (Some (JStr ''ana@x.com''))) start)
     = Inr ()
   \<and> fst (post_usuarios quiet ana start)
       = \<lparr>status = 201, sent = Doc \<lparr>ident = 1, name = Some ''Ana'', email = Some ''ana@x.com''\<rparr>\<rparr>
   \<and> fst (User_save (quiet\<lparr>mongo_throws := Some (MongoError ''down'')\<rparr>)
        (new_User (quiet\<lparr>mongo_throws := Some (MongoError ''down'')\<rparr>)
           (Some (JStr ''Ana'')) (Some (JStr ''ana@x.com''))) start)
       = Inl (MongoError ''down'')
   \<and> fst (post_usuarios (quiet\<lparr>mongo_throws := Some (MongoError ''down'')\<rparr>) ana start)
       = \<lparr>status = 500, sent = MessageError ''Erro ao criar usuario'' ''down''\<rparr>"
proof -
  have n: "property (body ana) ''name'' = Some (JStr ''Ana'')" "''Ana'' \<noteq> []"
    and e: "property (body ana) ''email'' = Some (JStr ''ana@x.com'')" "''ana@x.com'' \<noteq> []"
    by (simp_all add: ana_def property_def)
  have s1: "fst (User_save quiet
                   (new_User quiet (Some (JStr ''Ana'')) (Some (JStr ''ana@x.com''))) start)
              = Inr ()"
    by (simp add: User_save_def new_User_strings quiet_def start_def world_simps)
  have s2: "fst (User_save (quiet\<lparr>mongo_throws := Some (MongoError ''down'')\<rparr>)
        (new_User (quiet\<lparr>mongo_throws := Some (MongoError ''down'')\<rparr>)
           (Some (JStr ''Ana'')) (Some (JStr ''ana@x.com''))) start)
       = Inl (MongoError ''down'')"
    by (simp add: User_save_def new_User_strings quiet_def start_def world_simps)
  show ?thesis
    using create_status_and_record [OF n e, of quiet start]
      create_status_and_record [OF n e, of "quiet\<lparr>mongo_throws := Some (MongoError ''down'')\<rparr>" start]
      s1 s2
    by (simp add: quiet_def)
qed

text \<open>
  C3. A create request whose name or email is missing or falsy (the empty string among
  the falsy values) is answered 400, and the world is left as it was: no call has been
  made, to the store or to anything else, and the collection is unchanged.
\<close>

theorem create_missing_field:
  assumes "\<not> truthy (property (body req) ''name'') \<or> \<not> truthy (property (body req) ''email'')"
  shows "post_usuarios en req w
           = (\<lparr>status = 400, sent = Message ''Nome e email sao obrigatorios.''\<rparr>, w)"
  using assms by (auto simp: post_usuarios_def js_not_def)

theorem create_missing_field_witness:
  "property (body (ana\<lparr>body := JObj [(''name'', JStr ''Ana'')]\<rparr>)) ''email'' = None \<and>
   post_usuarios quiet (ana\<lparr>body := JObj [(''name'', JStr ''Ana'')]\<rparr>) start
     = (\<lparr>status = 400, sent = Message ''Nome e email sao obrigatorios.''\<rparr>, start) \<and>
   property (body (ana\<lparr>body := JObj [(''name'', JStr []), (''email'', JStr ''ana@x.com'')]\<rparr>))
     ''name'' = Some (JStr []) \<and>
   post_usuarios quiet
     (ana\<lparr>body := JObj [(''name'', JStr []), (''email'', JStr ''ana@x.com'')]\<rparr>) start
     = (\<lparr>status = 400, sent = Message ''Nome e email sao obrigatorios.''\<rparr>, start)"
proof -
  have a: "property (body (ana\<lparr>body := JObj [(''name'', JStr ''Ana'')]\<rparr>)) ''email'' = None"
    by (simp add: property_def)
  have b: "property
             (body (ana\<lparr>body := JObj [(''name'', JStr []), (''email'', JStr ''ana@x.com'')]\<rparr>))
             ''name'' = Some (JStr [])"
    by (simp add: property_def)
  show ?thesis
    using a b
      create_missing_field [of "ana\<lparr>body := JObj [(''name'', JStr ''Ana'')]\<rparr>" quiet start]
      create_missing_field
        [of "ana\<lparr>body := JObj [(''name'', JStr []), (''email'', JStr ''ana@x.com'')]\<rparr>"
          quiet start]
    by simp
qed



text \<open>
  C5. An update of an existing document with the body \<^verbatim>\<open>{name: "X"}\<close>: an answer of 200
  carries the document with the name X and with its email and its identifier as they
  were, that document is what the collection holds under the identifier afterwards, and
  the documents of the other identifiers are as they were. The answer is 200 when the
  call to the store does not throw (the connection is open and the store does not fail).
\<close>

theorem update_name_only:
  assumes "body req = JObj [(''name'', JStr x)]"
      and "castObjectId (params_id req) = Some i"
      and "find (by_id i) (usuarios w) = Some u"
  shows "(status (fst (put_usuario en req w)) = 200 \<longrightarrow>
            sent (fst (put_usuario en req w)) = Doc (u\<lparr>name := Some x\<rparr>) \<and>
            find (by_id i) (usuarios (snd (put_usuario en req w))) = Some (u\<lparr>name := Some x\<rparr>) \<and>
            filter (other_id i) (usuarios (snd (put_usuario en req w)))
              = filter (other_id i) (usuarios w)) \<and>
         (connected w \<and> mongo_throws en = None \<longrightarrow>
            status (fst (put_usuario en req w)) = 200)"
proof -
  let ?f = "applyUpdate \<lparr>set_name = Some (Some x), set_email = None\<rparr>"
  have f: "?f v = v\<lparr>name := Some x\<rparr>" for v
    by (simp add: applyUpdate_def)
  from assms(3) have i: "ident u = i" by (rule find_by_id_ident)
  have a: "find (by_id i) (replace_first (by_id i) ?f (usuarios w)) = Some (?f u)"
    using assms(3) i by (intro find_replace_first) (simp_all add: by_id_def applyUpdate_ident)
  have b: "filter (other_id i) (replace_first (by_id i) ?f (usuarios w))
             = filter (other_id i) (usuarios w)"
    by (rule filter_replace_first) (simp add: by_id_def other_id_def applyUpdate_ident)
  show ?thesis
    using assms a b
    by (auto simp: put_usuario_def User_findByIdAndUpdate_def update_of_name world_simps
          Let_def f split: option.splits)
qed

theorem update_name_only_witness:
  "status (fst (put_usuario quiet (ana\<lparr>body := JObj [(''name'', JStr ''X'')]\<rparr>) with_ana)) = 200 \<and>
   sent (fst (put_usuario quiet (ana\<lparr>body := JObj [(''name'', JStr ''X'')]\<rparr>) with_ana))
     = Doc \<lparr>ident = 1, name = Some ''X'', email = Some ''ana@x.com''\<rparr>"
proof -
  have b: "body (ana\<lparr>body := JObj [(''name'', JStr ''X'')]\<rparr>) = JObj [(''name'', JStr ''X'')]"
    by simp
  have c: "castObjectId (params_id (ana\<lparr>body := JObj [(''name'', JStr ''X'')]\<rparr>)) = Some 1"
    using castObjectId_ana by simp
  have q: "mongo_throws quiet = None" by (simp add: quiet_def)
  have o: "connected with_ana" by (simp add: with_ana_def start_def)
  show ?thesis
    using update_name_only [OF b c find_ana, of quiet] q o by simp
qed

text \<open>
  C6, as amended. An upload request that carries no file in the field \<^verbatim>\<open>file\<close> leaves the
  world as it was: no call has been made to the storage service, and the buckets are
  unchanged. It is answered 400 when it carries no file at all, and 500, with the
  multipart middleware's error for the field of its first file, when it carries a file in
  another field.
\<close>

theorem upload_without_file:
  assumes "filter (in_field ''file'') (files req) = []"
  shows "snd (post_upload en req w) = w \<and>
         (files req = [] \<longrightarrow>
            fst (post_upload en req w)
              = \<lparr>status = 400, sent = Message ''Nenhum arquivo enviado.''\<rparr>) \<and>
         (\<forall>k f rest. files req = (k, f) # rest \<longrightarrow>
            fst (post_upload en req w) = \<lparr>status = 500, sent = ErrorPage (MulterError k)\<rparr>)"
proof (cases "files req")
  case Nil
  then show ?thesis
    by (simp add: post_upload_def upload_single_def post_upload_handler_def)
next
  case (Cons p ps)
  obtain k f where p: "p = (k, f)" by (cases p)
  from assms Cons have "k \<noteq> ''file''"
    by (auto simp: p in_field_def split: if_splits)
  then show ?thesis using Cons
    by (simp add: p post_upload_def upload_single_def default_error_handler_def)
qed

theorem upload_without_file_witness:
  "filter (in_field ''file'') (files ana) = [] \<and>
   post_upload quiet ana start
     = (\<lparr>status = 400, sent = Message ''Nenhum arquivo enviado.''\<rparr>, start) \<and>
   filter (in_field ''file'') (files (ana\<lparr>files := [(''foto'', foto)]\<rparr>)) = [] \<and>
   post_upload quiet (ana\<lparr>files := [(''foto'', foto)]\<rparr>) start
     = (\<lparr>status = 500, sent = ErrorPage (MulterError ''foto'')\<rparr>, start)"
proof -
  have a: "filter (in_field ''file'') (files ana) = []" and n: "files ana = []"
    by (simp_all add: ana_def)
  have b: "filter (in_field ''file'') (files (ana\<lparr>files := [(''foto'', foto)]\<rparr>)) = []"
    by (simp add: in_field_def)
  from upload_without_file [OF a, of quiet start] n
  have first: "post_upload quiet ana start
     = (\<lparr>status = 400, sent = Message ''Nenhum arquivo enviado.''\<rparr>, start)"
    by (cases "post_upload quiet ana start") simp
  from upload_without_file [OF b, of quiet start]
  have second: "post_upload quiet (ana\<lparr>files := [(''foto'', foto)]\<rparr>) start
     = (\<lparr>status = 500, sent = ErrorPage (MulterError ''foto'')\<rparr>, start)"
    by (cases "post_upload quiet (ana\<lparr>files := [(''foto'', foto)]\<rparr>) start") simp
  from a b first second show ?thesis by simp
qed

text \<open>
  C6, as stated, fails: an upload whose one file sits in the field \<^verbatim>\<open>foto\<close> carries no file
  in the field \<^verbatim>\<open>file\<close>, and is answered 500, not 400.
\<close>

theorem upload_without_file_counterexample:
  "filter (in_field ''file'') (files (ana\<lparr>files := [(''foto'', foto)]\<rparr>)) = [] \<and>
   status (fst (post_upload quiet (ana\<lparr>files := [(''foto'', foto)]\<rparr>) start)) = 500 \<and>
   status (fst (post_upload quiet (ana\<lparr>files := [(''foto'', foto)]\<rparr>) start)) \<noteq> 400"
  by (simp add: in_field_def post_upload_def upload_single_def default_error_handler_def)

text \<open>
  C7. Deleting an object: when the call to the storage service succeeds, the answer is 200
  with the confirmation message, and the call does succeed on a bucket that has no object
  of the key; when the call throws, the answer is 500 with a message and the message of
  the error. The answer is never 404.
\<close>

theorem delete_file_status:
  "(fst (s3_deleteObject en (params_bucketName req) (params_fileName req) w) = Inr () \<longrightarrow>
      fst (delete_file en req w)
        = \<lparr>status = 200, sent = Message ''Arquivo deletado com sucesso''\<rparr>) \<and>
   (\<forall>x. fst (s3_deleteObject en (params_bucketName req) (params_fileName req) w) = Inl x \<longrightarrow>
      fst (delete_file en req w)
        = \<lparr>status = 500, sent = MessageError ''Erro ao remover arquivo'' (message x)\<rparr>) \<and>
   (s3_throws en = None \<and> map_of (buckets w) (params_bucketName req) = Some os \<and>
    find (has_key (params_fileName req)) os = None \<longrightarrow>
      fst (s3_deleteObject en (params_bucketName req) (params_fileName req) w) = Inr ()) \<and>
   status (fst (delete_file en req w)) \<noteq> 404"
  by (simp add: delete_file_def s3_deleteObject_def world_simps Let_def
        split: option.splits sum.splits prod.splits)

theorem delete_file_status_witness:
  "map_of (buckets start) (params_bucketName ana) = Some [] \<and>
   find (has_key (params_fileName ana)) [] = None \<and>
   fst (delete_file quiet ana start)
     = \<lparr>status = 200, sent = Message ''Arquivo deletado com sucesso''\<rparr> \<and>
   fst (s3_deleteObject (quiet\<lparr>s3_throws := Some (S3Error ''timeout'')\<rparr>)
          (params_bucketName ana) (params_fileName ana) start) = Inl (S3Error ''timeout'') \<and>
   fst (delete_file (quiet\<lparr>s3_throws := Some (S3Error ''timeout'')\<rparr>) ana start)
     = \<lparr>status = 500, sent = MessageError ''Erro ao remover arquivo'' ''timeout''\<rparr>"
proof -
  have b: "map_of (buckets start) (params_bucketName ana) = Some []"
    by (simp add: start_def ana_def)
  have t: "fst (s3_deleteObject (quiet\<lparr>s3_throws := Some (S3Error ''timeout'')\<rparr>)
          (params_bucketName ana) (params_fileName ana) start) = Inl (S3Error ''timeout'')"
    by (simp add: s3_deleteObject_def world_simps)
  show ?thesis
    using b t delete_file_status [of quiet ana start "[]"]
      delete_file_status [of "quiet\<lparr>s3_throws := Some (S3Error ''timeout'')\<rparr>" ana start "[]"]
    by (simp add: quiet_def)
qed

text \<open>
  C8. Every call of the connection test is answered as follows, and leaves the world as
  follows. When neither the connection nor the search fails: 200 with the text for a user
  found when the collection has a document, 200 with the text for no user found when it
  has none, after the calls connect, findOne, logInfo and close. When the connection
  fails, or the search does: 500 with the text of the failure, after the calls up to the
  one that failed, logError and close. So in every case the last call the handler makes
  is the one that closes the connection, which is closed in the world it leaves.
\<close>

theorem testar_conexao_closes:
  "(connect_throws en = None \<and> mongo_throws en = None \<and> usuarios w \<noteq> [] \<longrightarrow>
      testar_conexao en req w
        = (\<lparr>status = 200,
            sent = Text ''Conexao com o MongoDB bem-sucedida e usuario encontrado!''\<rparr>,
           w\<lparr>connected := False,
             calls := calls w @ [Connect, FindOne,
               LogInfo ''Conexao com o MongoDB efetuada com sucesso'', Close]\<rparr>)) \<and>
   (connect_throws en = None \<and> mongo_throws en = None \<and> usuarios w = [] \<longrightarrow>
      testar_conexao en req w
        = (\<lparr>status = 200,
            sent = Text ''Conexao com o MongoDB bem-sucedida, mas nenhum usuario encontrado.''\<rparr>,
           w\<lparr>connected := False,
             calls := calls w @ [Connect, FindOne,
               LogInfo ''Conexao com o MongoDB efetuada com sucesso'', Close]\<rparr>)) \<and>
   (\<forall>x. connect_throws en = Some x \<longrightarrow>
      testar_conexao en req w
        = (\<lparr>status = 500, sent = Text ''Erro na conexao com o MongoDB''\<rparr>,
           w\<lparr>connected := False,
             calls := calls w @ [Connect,
               LogError (Concat ''Erro ao conectar no MongoDb'' x) x, Close]\<rparr>)) \<and>
   (\<forall>x. connect_throws en = None \<and> mongo_throws en = Some x \<longrightarrow>
      testar_conexao en req w
        = (\<lparr>status = 500, sent = Text ''Erro na conexao com o MongoDB''\<rparr>,
           w\<lparr>connected := False,
             calls := calls w @ [Connect, FindOne,
               LogError (Concat ''Erro ao conectar no MongoDb'' x) x, Close]\<rparr>)) \<and>
   last (calls (snd (testar_conexao en req w))) = Close \<and>
   connected (snd (testar_conexao en req w)) = False"
  by (simp add: testar_conexao_def testar_conexao_try_def mongoose_connect_def User_findOne_def
        connection_close_def world_simps Let_def
        split: option.splits sum.splits prod.splits list.splits)

theorem testar_conexao_closes_witness:
  "fst (testar_conexao quiet ana with_ana)
     = \<lparr>status = 200,
        sent = Text ''Conexao com o MongoDB bem-sucedida e usuario encontrado!''\<rparr> \<and>
   fst (testar_conexao quiet ana start)
     = \<lparr>status = 200,
        sent = Text ''Conexao com o MongoDB bem-sucedida, mas nenhum usuario encontrado.''\<rparr> \<and>
   fst (testar_conexao (quiet\<lparr>connect_throws := Some (MongoError ''refused'')\<rparr>) ana with_ana)
     = \<lparr>status = 500, sent = Text ''Erro na conexao com o MongoDB''\<rparr> \<and>
   testar_conexao (quiet\<lparr>mongo_throws := Some (MongoError ''down'')\<rparr>) ana start
     = (\<lparr>status = 500, sent = Text ''Erro na conexao com o MongoDB''\<rparr>,
        start\<lparr>connected := False,
              calls := [Connect, FindOne,
                LogError (Concat ''Erro ao conectar no MongoDb'' (MongoError ''down''))
                  (MongoError ''down''), Close]\<rparr>)"
proof -
  have u: "usuarios with_ana \<noteq> []" "usuarios start = []" "calls start = []"
    by (simp_all add: with_ana_def start_def)
  have q: "connect_throws quiet = None" "mongo_throws quiet = None"
    by (simp_all add: quiet_def)
  show ?thesis
    using testar_conexao_closes [of quiet with_ana ana]
      testar_conexao_closes [of quiet start ana]
      testar_conexao_closes [of "quiet\<lparr>connect_throws := Some (MongoError ''refused'')\<rparr>"
        with_ana ana]
      testar_conexao_closes [of "quiet\<lparr>mongo_throws := Some (MongoError ''down'')\<rparr>" start ana]
      u q
    by simp
qed

text \<open>
  C9. Create reads nothing of the body but name and email: a request whose body has the
  strings \<open>n\<close> and \<open>e\<close> as name and email, whatever else it has, gets the answer and leaves
  the world that the same request with the body \<^verbatim>\<open>{name: n, email: e}\<close> gets and leaves; and
  when the answer is 201, the document answered and added to the collection is the
  generated identifier, \<open>n\<close> and \<open>e\<close>.
\<close>

theorem create_ignores_other_fields:
  assumes "property (body req) ''name'' = Some (JStr n)"
      and "property (body req) ''email'' = Some (JStr e)"
  shows "post_usuarios en req w
           = post_usuarios en (req\<lparr>body := JObj [(''name'', JStr n), (''email'', JStr e)]\<rparr>) w \<and>
         (status (fst (post_usuarios en req w)) = 201 \<longrightarrow>
            sent (fst (post_usuarios en req w))
              = Doc \<lparr>ident = new_ObjectId en, name = Some n, email = Some e\<rparr> \<and>
            usuarios (snd (post_usuarios en req w))
              = usuarios w @ [\<lparr>ident = new_ObjectId en, name = Some n, email = Some e\<rparr>])"
  using assms
  by (auto simp: post_usuarios_def property_def new_User_strings User_save_def world_simps
        Let_def split: option.splits)

theorem create_ignores_other_fields_witness:
  "post_usuarios quiet
     (ana\<lparr>body := JObj [(''admin'', JBool True), (''name'', JStr ''Ana''),
                        (''email'', JStr ''ana@x.com''), (''age'', JNum ''30'')]\<rparr>) start
     = post_usuarios quiet ana start \<and>
   fst (post_usuarios quiet
     (ana\<lparr>body := JObj [(''admin'', JBool True), (''name'', JStr ''Ana''),
                        (''email'', JStr ''ana@x.com''), (''age'', JNum ''30'')]\<rparr>) start)
     = \<lparr>status = 201, sent = Doc \<lparr>ident = 1, name = Some ''Ana'', email = Some ''ana@x.com''\<rparr>\<rparr>"
proof -
  let ?r = "ana\<lparr>body := JObj [(''admin'', JBool True), (''name'', JStr ''Ana''),
                              (''email'', JStr ''ana@x.com''), (''age'', JNum ''30'')]\<rparr>"
  have n: "property (body ?r) ''name'' = Some (JStr ''Ana'')"
    and e: "property (body ?r) ''email'' = Some (JStr ''ana@x.com'')"
    by (simp_all add: property_def)
  have s: "status (fst (post_usuarios quiet ana start)) = 201"
    by (simp add: post_usuarios_def ana_def property_def js_not_def new_User_strings
          User_save_def quiet_def start_def world_simps)
  have a: "?r\<lparr>body := JObj [(''name'', JStr ''Ana''), (''email'', JStr ''ana@x.com'')]\<rparr> = ana"
    by (simp add: ana_def)
  note c = create_ignores_other_fields [OF n e, of quiet start, unfolded a]
  from c have same: "post_usuarios quiet ?r start = post_usuarios quiet ana start"
    by (rule conjunct1)
  from c have made: "status (fst (post_usuarios quiet ?r start)) = 201 \<longrightarrow>
      sent (fst (post_usuarios quiet ?r start))
        = Doc \<lparr>ident = new_ObjectId quiet, name = Some ''Ana'', email = Some ''ana@x.com''\<rparr>"
    by blast
  from s same have "status (fst (post_usuarios quiet ?r start)) = 201" by simp
  with made have "fst (post_usuarios quiet ?r start)
      = \<lparr>status = 201,
         sent = Doc \<lparr>ident = new_ObjectId quiet, name = Some ''Ana'', email = Some ''ana@x.com''\<rparr>\<rparr>"
    by (cases "fst (post_usuarios quiet ?r start)") simp
  with same show ?thesis by (simp add: quiet_def)
qed



end
